theory Spec2Isabelle
  imports Main
begin

section \<open>Exceptions\<close>

text \<open>
  The exceptions that the functions of \<^verbatim>\<open>phy/cluster/manual/gui_plugins.py\<close> raise
  or let through. \<open>NotImplementedError\<close> is raised by \<open>_process_ups\<close>;
  \<open>InvalidOperation\<close> is the failure that the specification gives to the operations of
  the assignment store; \<open>OtherException\<close> is any other exception, with its name, that a
  method of a class outside the sources raises.
\<close>

datatype error = NotImplementedError | InvalidOperation | OtherException string

section \<open>Diff records\<close>

text \<open>
  Modelled from the spec: the class \<open>UpdateInfo\<close> is not among the sources. The record
  has the four fields of the specification's diff record (section 3), and
  \<open>UpdateInfo_update\<close> is the combining rule of section 4.4 on two records: the union of
  the added, deleted and updated fields of both. The specification names no rule for the
  description; the receiver keeps its own.
\<close>

record UpdateInfo =
  description :: string
  added :: "int set"
  deleted :: "int set"
  updated_spike_ids :: "nat set"


section \<open>The object store\<close>





section \<open>\<open>_process_ups\<close>\<close>






section \<open>The plugin \<open>ManualClustering\<close>\<close>

text \<open>
  Modelled from the spec: the class \<open>Wizard\<close> is not among the sources. Its state is the
  triple of section 3 of the specification; the plugin reads and writes the field
  \<open>selection\<close> only.
\<close>

record Wizard =
  review_queue :: "int list"
  pinned :: "int option"
  selection :: "int list"

text \<open>
  The two stores that the plugin registers with its history:
  \<open>self.clustering\<close> and \<open>self.cluster_meta\<close>.
\<close>

datatype controller = ClusteringController | ClusterMetaController

text \<open>
  The fields that \<open>attach_to_gui\<close> sets and the clustering actions use. The classes
  \<open>Clustering\<close>, \<open>ClusterMeta\<close> and \<open>GlobalHistory\<close> are not among the sources, so
  their states are type parameters.
\<close>

record ('c, 'm, 'h) ManualClustering =
  clustering :: 'c
  cluster_meta :: 'm
  global_history :: 'h
  wizard :: Wizard

text \<open>
  \<^verbatim>\<open>
  def merge(self, cluster_ids=None):
      if cluster_ids is None:
          cluster_ids = self.wizard.selection
      self.clustering.merge(cluster_ids)
      self._global_history.action(self.clustering)

  def split(self, spike_ids):
      self.clustering.split(spike_ids)
      self._global_history.action(self.clustering)
  \<close>
  The methods of the absent classes are parameters: \<open>clustering_merge\<close> and
  \<open>clustering_split\<close> return the diff and the new state of the store or raise,
  \<open>action\<close> is \<open>GlobalHistory.action\<close>, and \<open>on_cluster\<close> is the reaction of the wizard
  to the change notification of the store, to which \<open>attach_to_gui\<close> subscribes it with
  \<open>self.wizard.attach(self.clustering, self.cluster_meta)\<close>. An exception of the store
  leaves the method before the history is told of the action.
\<close>

definition ManualClustering_merge ::
  "('c \<Rightarrow> int list \<Rightarrow> error + (UpdateInfo \<times> 'c)) \<Rightarrow> (Wizard \<Rightarrow> UpdateInfo \<Rightarrow> Wizard) \<Rightarrow>
   ('h \<Rightarrow> controller \<Rightarrow> 'h) \<Rightarrow> ('c, 'm, 'h) ManualClustering \<Rightarrow> int list option \<Rightarrow>
   error + ('c, 'm, 'h) ManualClustering" where
  "ManualClustering_merge clustering_merge on_cluster action self cluster_ids =
     (let cluster_ids' =
        (case cluster_ids of None \<Rightarrow> selection (wizard self) | Some ids \<Rightarrow> ids)
      in case clustering_merge (clustering self) cluster_ids' of
           Inl e \<Rightarrow> Inl e
         | Inr (up, c) \<Rightarrow>
             Inr (self\<lparr>clustering := c,
                       wizard := on_cluster (wizard self) up,
                       global_history := action (global_history self) ClusteringController\<rparr>))"

definition ManualClustering_split ::
  "('c \<Rightarrow> nat list \<Rightarrow> error + (UpdateInfo \<times> 'c)) \<Rightarrow> (Wizard \<Rightarrow> UpdateInfo \<Rightarrow> Wizard) \<Rightarrow>
   ('h \<Rightarrow> controller \<Rightarrow> 'h) \<Rightarrow> ('c, 'm, 'h) ManualClustering \<Rightarrow> nat list \<Rightarrow>
   error + ('c, 'm, 'h) ManualClustering" where
  "ManualClustering_split clustering_split on_cluster action self spike_ids =
     (case clustering_split (clustering self) spike_ids of
        Inl e \<Rightarrow> Inl e
      | Inr (up, c) \<Rightarrow>
          Inr (self\<lparr>clustering := c,
                    wizard := on_cluster (wizard self) up,
                    global_history := action (global_history self) ClusteringController\<rparr>))"

section \<open>The assignment store\<close>

text \<open>
  Modelled from the spec: the class \<open>Clustering\<close> is not among the sources. The plugin
  builds it from the array \<open>spike_clusters\<close>, which gives the cluster of every spike: the
  spike ids are the positions of the array, and the assignment of section 3 of the
  specification is the array itself.
\<close>

record Clustering =
  spike_clusters :: "int list"

text \<open>
  Modelled from the spec: \<open>cluster_ids\<close> of section 4.1, the clusters that hold a spike.
\<close>

definition cluster_ids :: "Clustering \<Rightarrow> int set" where
  "cluster_ids c = set (spike_clusters c)"

text \<open>
  Modelled from the spec: the derived index of section 3, from a cluster to the ordered
  sequence of its spikes, which \<open>on_select\<close> hands to \<open>select_spikes\<close>.
\<close>

definition spikes_per_cluster :: "Clustering \<Rightarrow> int \<Rightarrow> nat list" where
  "spikes_per_cluster c k =
     [s \<leftarrow> [0..<length (spike_clusters c)]. spike_clusters c ! s = k]"

text \<open>
  Modelled from the spec: a new cluster receives the greatest existing id plus one
  (sections 3 and 4.1).
\<close>

definition new_cluster_id :: "Clustering \<Rightarrow> int" where
  "new_cluster_id c = Max (cluster_ids c) + 1"

text \<open>
  Modelled from the spec: \<open>merge\<close> of section 4.1. It fails with \<open>InvalidOperation\<close> when
  fewer than two clusters are given or one of them does not exist; otherwise every spike
  of a given cluster moves to the new cluster, and the diff names the new cluster, the
  given clusters and the spikes that moved.
\<close>

definition Clustering_merge :: "Clustering \<Rightarrow> int list \<Rightarrow> error + (UpdateInfo \<times> Clustering)" where
  "Clustering_merge c ids =
     (if card (set ids) < 2 \<or> \<not> set ids \<subseteq> cluster_ids c then Inl InvalidOperation
      else
        (let new_id = new_cluster_id c
         in Inr (\<lparr>description = ''merge'', added = {new_id}, deleted = set ids,
                   updated_spike_ids = set (concat (map (spikes_per_cluster c) ids))\<rparr>,
                 c\<lparr>spike_clusters :=
                     map (\<lambda>k. if k \<in> set ids then new_id else k) (spike_clusters c)\<rparr>)))"

text \<open>
  The example of section 8 of the specification: the clusters 1, 2 and 3 with the spikes
  \<open>[0, 1, 2]\<close>, \<open>[3, 4]\<close> and \<open>[5]\<close>.
\<close>

definition example_clustering :: Clustering where
  "example_clustering = \<lparr>spike_clusters = [1, 1, 1, 2, 2, 3]\<rparr>"

section \<open>Properties of \<open>_process_ups\<close>\<close>








section \<open>Properties of \<open>ManualClustering.merge\<close>\<close>

text \<open>
  Claim C10. Whatever the store, the wizard and the history do: a call of
  \<open>ManualClustering.merge\<close> without clusters is the call with the selection of the wizard,
  and the store is asked to merge exactly that selection: the outcome for the store (its
  new state, or the exception) is the outcome of its own \<open>merge\<close> on the selection.
\<close>

theorem merge_defaults_to_selection:
  "ManualClustering_merge clustering_merge on_cluster action self None =
     ManualClustering_merge clustering_merge on_cluster action self
       (Some (selection (wizard self))) \<and>
   map_sum id clustering (ManualClustering_merge clustering_merge on_cluster action self None) =
     map_sum id snd (clustering_merge (clustering self) (selection (wizard self)))"
  by (simp add: ManualClustering_merge_def split: sum.split prod.split)

section \<open>Properties of the assignment store\<close>

lemma set_spikes_per_cluster:
  "set (spikes_per_cluster c k) =
     {s. s < length (spike_clusters c) \<and> spike_clusters c ! s = k}"
  by (auto simp: spikes_per_cluster_def)

lemma new_cluster_id_fresh: "new_cluster_id c \<notin> cluster_ids c"
proof
  assume "new_cluster_id c \<in> cluster_ids c"
  then have "new_cluster_id c \<le> Max (cluster_ids c)"
    by (simp add: cluster_ids_def)
  then show False by (simp add: new_cluster_id_def)
qed

lemma merge_updated_spikes:
  "(\<Union>k \<in> set ids. set (spikes_per_cluster c k)) =
     {s. s < length (spike_clusters c) \<and> spike_clusters c ! s \<in> set ids}"
  by (auto simp: set_spikes_per_cluster)

lemma merge_cluster_ids:
  assumes "I \<subseteq> set xs" "I \<noteq> {}"
  shows "set (map (\<lambda>k. if k \<in> I then n else k) xs) = (set xs - I) \<union> {n}"
  using assms by (auto simp: image_iff)

text \<open>
  Claim C3. \<open>merge\<close> fails with \<open>InvalidOperation\<close> when fewer than two clusters are
  given or one of them does not exist. Given at least two existing clusters, it returns a
  diff whose added cluster is the greatest existing id plus one, an id that no cluster
  has, whose deleted clusters
  are the given ones and whose updated spikes are the spikes of the given clusters; these
  spikes now belong to the new cluster, every other spike keeps its cluster, and the
  clusters of the store are the old ones without the given ones, with the new one.
\<close>

theorem Clustering_merge_spec:
  "(card (set ids) < 2 \<or> \<not> set ids \<subseteq> cluster_ids c \<longrightarrow>
      Clustering_merge c ids = Inl InvalidOperation) \<and>
   (2 \<le> card (set ids) \<and> set ids \<subseteq> cluster_ids c \<longrightarrow>
      (\<exists>up c'. Clustering_merge c ids = Inr (up, c') \<and>
         added up = {Max (cluster_ids c) + 1} \<and>
         Max (cluster_ids c) + 1 \<notin> cluster_ids c \<and>
         deleted up = set ids \<and>
         updated_spike_ids up =
           {s. s < length (spike_clusters c) \<and> spike_clusters c ! s \<in> set ids} \<and>
         length (spike_clusters c') = length (spike_clusters c) \<and>
         (\<forall>s < length (spike_clusters c).
            spike_clusters c' ! s =
              (if spike_clusters c ! s \<in> set ids then Max (cluster_ids c) + 1
               else spike_clusters c ! s)) \<and>
         cluster_ids c' = (cluster_ids c - set ids) \<union> {Max (cluster_ids c) + 1}))"
proof (intro conjI impI)
  assume "card (set ids) < 2 \<or> \<not> set ids \<subseteq> cluster_ids c"
  then show "Clustering_merge c ids = Inl InvalidOperation"
    by (auto simp: Clustering_merge_def)
next
  assume ok: "2 \<le> card (set ids) \<and> set ids \<subseteq> cluster_ids c"
  then have ne: "set ids \<noteq> {}" by auto
  from ok have sub: "set ids \<subseteq> set (spike_clusters c)" by (simp add: cluster_ids_def)
  let ?n = "Max (cluster_ids c) + 1"
  let ?up = "\<lparr>description = ''merge'', added = {?n}, deleted = set ids,
               updated_spike_ids = set (concat (map (spikes_per_cluster c) ids))\<rparr>"
  let ?c = "c\<lparr>spike_clusters := map (\<lambda>k. if k \<in> set ids then ?n else k) (spike_clusters c)\<rparr>"
  have run: "Clustering_merge c ids = Inr (?up, ?c)"
    using ok by (simp add: Clustering_merge_def new_cluster_id_def Let_def)
  have fresh: "?n \<notin> cluster_ids c"
    using new_cluster_id_fresh [of c] by (simp add: new_cluster_id_def)
  have ids': "cluster_ids ?c = (cluster_ids c - set ids) \<union> {?n}"
    using merge_cluster_ids [OF sub ne] by (simp add: cluster_ids_def)
  show "\<exists>up c'. Clustering_merge c ids = Inr (up, c') \<and>
         added up = {Max (cluster_ids c) + 1} \<and>
         Max (cluster_ids c) + 1 \<notin> cluster_ids c \<and>
         deleted up = set ids \<and>
         updated_spike_ids up =
           {s. s < length (spike_clusters c) \<and> spike_clusters c ! s \<in> set ids} \<and>
         length (spike_clusters c') = length (spike_clusters c) \<and>
         (\<forall>s < length (spike_clusters c).
            spike_clusters c' ! s =
              (if spike_clusters c ! s \<in> set ids then Max (cluster_ids c) + 1
               else spike_clusters c ! s)) \<and>
         cluster_ids c' = (cluster_ids c - set ids) \<union> {Max (cluster_ids c) + 1}"
    unfolding run by (simp add: merge_updated_spikes ids' fresh)
qed

theorem Clustering_merge_spec_witness:
  "(\<exists>up c'. Clustering_merge example_clustering [1, 2] = Inr (up, c') \<and>
      added up = {4} \<and> deleted up = {1, 2} \<and>
      updated_spike_ids up = {0, 1, 2, 3, 4} \<and>
      spike_clusters c' = [4, 4, 4, 4, 4, 3]) \<and>
   Clustering_merge example_clustering [1] = Inl InvalidOperation \<and>
   Clustering_merge example_clustering [1, 9] = Inl InvalidOperation"
proof -
  have two: "2 \<le> card (set [1, 2 :: int]) \<and> set [1, 2] \<subseteq> cluster_ids example_clustering"
    by (simp add: cluster_ids_def example_clustering_def)
  have few: "card (set [1 :: int]) < 2 \<or> \<not> set [1] \<subseteq> cluster_ids example_clustering"
    by simp
  have unknown:
    "card (set [1, 9 :: int]) < 2 \<or> \<not> set [1, 9] \<subseteq> cluster_ids example_clustering"
    by (simp add: cluster_ids_def example_clustering_def)
  have run: "Clustering_merge example_clustering [1, 2] =
     Inr (\<lparr>description = ''merge'', added = {4}, deleted = {1, 2},
            updated_spike_ids = {0, 1, 2, 3, 4}\<rparr>,
          \<lparr>spike_clusters = [4, 4, 4, 4, 4, 3]\<rparr>)"
    by code_simp
  from Clustering_merge_spec [of "[1, 2]" example_clustering] two
  obtain up c' where r: "Clustering_merge example_clustering [1, 2] = Inr (up, c')"
    by blast
  from r run have "added up = {4} \<and> deleted up = {1, 2} \<and>
      updated_spike_ids up = {0, 1, 2, 3, 4} \<and> spike_clusters c' = [4, 4, 4, 4, 4, 3]"
    by auto
  with r have ok: "\<exists>up c'. Clustering_merge example_clustering [1, 2] = Inr (up, c') \<and>
      added up = {4} \<and> deleted up = {1, 2} \<and>
      updated_spike_ids up = {0, 1, 2, 3, 4} \<and>
      spike_clusters c' = [4, 4, 4, 4, 4, 3]"
    by blast
  from Clustering_merge_spec [of "[1]" example_clustering] few
  have e1: "Clustering_merge example_clustering [1] = Inl InvalidOperation"
    by blast
  from Clustering_merge_spec [of "[1, 9]" example_clustering] unknown
  have e2: "Clustering_merge example_clustering [1, 9] = Inl InvalidOperation"
    by blast
  from ok e1 e2 show ?thesis by (intro conjI)
qed

section \<open>Properties of \<open>ManualClustering.split\<close>\<close>

text \<open>
  Whatever the store, the wizard and the history do: a successful
  \<open>ManualClustering.split\<close> leaves the store in the state that \<open>split\<close> of the store
  produced, and tells the history of one action of the assignment store.
\<close>

lemma ManualClustering_split_store:
  "ManualClustering_split clustering_split on_cluster action self spike_ids = Inr self' \<Longrightarrow>
     \<exists>up. clustering_split (clustering self) spike_ids = Inr (up, clustering self') \<and>
       global_history self' = action (global_history self) ClusteringController"
  by (auto simp: ManualClustering_split_def split: sum.splits)

end
